theory Spec2Isabelle
  imports Main "HOL-Library.Word"
begin

unbundle bit_operations_syntax

section \<open>The server program (modbus_server.c)\<close>

text \<open>
  The program is glue around a Modbus library: it calls \<open>modbus_new_tcp\<close>,
  \<open>modbus_mapping_new\<close>, \<open>modbus_tcp_listen\<close>, \<open>modbus_tcp_accept\<close>,
  \<open>modbus_receive\<close> and \<open>modbus_reply\<close>, none of which is part of the source.
  In this section the library is a parameter: the pure library functions are arguments
  of the model, and what the library reports from the outside world (the result of each
  accept and each receive) is a script that the program consumes call by call.
\<close>

type_synonym byte = "8 word"

text \<open>\<open>ECONNRESET\<close> of errno.h (its Linux value).\<close>

definition ECONNRESET :: int where
  "ECONNRESET = 104"

text \<open>What one call of \<open>modbus_receive(ctx, query)\<close> hands back: its return value, the
  \<open>errno\<close> it leaves, and the bytes it stored in \<open>query\<close>.\<close>

record received =
  recv_rc :: int
  recv_errno :: int
  recv_query :: "byte list"

text \<open>What one call of \<open>modbus_reply(ctx, query, rc, mb_mapping)\<close> does: its return
  value, the bytes it wrote to the client, and the register map it leaves.\<close>

record 'm replied =
  reply_rc :: int
  reply_sent :: "byte list"
  reply_mapping :: 'm

text \<open>Everything the program does that can be observed, in program order: the library
  calls with their results, and the lines written to stdout and stderr. The hex dumps of
  \<open>print_query\<close> and \<open>print_response\<close> are kept as the length they print.\<close>

datatype event =
    Settings_printed
  | Error_initializing int
  | Error_allocating int
  | Error_listening int
  | Mapping_freed
  | Context_freed
  | Info_listening
  | Accepted int
  | Error_accepting int
  | Info_connected
  | Received int
  | Query_printed int
  | Replied int "byte list"
  | Response_printed int
  | Info_disconnected
  | Error_receiving int

text \<open>The state that \<open>main\<close> carries through its loops: the register map behind
  \<open>mb_mapping\<close>, the client sockets that \<open>modbus_tcp_accept\<close> has returned (the source
  contains no call that closes a socket, so nothing ever leaves this list), and the
  events so far.\<close>

record 'm server =
  mb_mapping :: 'm
  open_sockets :: "int list"
  events :: "event list"

definition emit :: "event \<Rightarrow> 'm server \<Rightarrow> 'm server" where
  "emit e s = s\<lparr>events := events s @ [e]\<rparr>"

text \<open>\<open>debug_print_func\<close>: prints only when the debug flag is set.\<close>

definition debug_print_func :: "bool \<Rightarrow> event \<Rightarrow> 'm server \<Rightarrow> 'm server" where
  "debug_print_func debug e s = (if debug then emit e s else s)"

text \<open>\<open>handle_client_request\<close> (lines 165 to 180). \<open>r\<close> is the result of the call of
  \<open>modbus_receive\<close> on line 166.\<close>

definition handle_client_request ::
  "(byte list \<Rightarrow> int \<Rightarrow> 'm \<Rightarrow> 'm replied) \<Rightarrow> received \<Rightarrow> bool \<Rightarrow> 'm server
     \<Rightarrow> int \<times> 'm server" where
  "handle_client_request modbus_reply r debug s0 =
    (let rc = recv_rc r;
         s1 = emit (Received rc) s0
     in if rc > 0 then
          let s2 = (if debug then emit (Query_printed rc) s1 else s1);
              p = modbus_reply (recv_query r) rc (mb_mapping s2);
              rc' = reply_rc p;
              s3 = emit (Replied rc' (reply_sent p)) (s2\<lparr>mb_mapping := reply_mapping p\<rparr>);
              s4 = (if rc' > 0 \<and> debug then emit (Response_printed rc') s3 else s3)
          in (rc', s4)
        else if rc = -1 \<and> recv_errno r = ECONNRESET then
          (rc, debug_print_func debug Info_disconnected s1)
        else if rc = -1 then
          (rc, emit (Error_receiving (recv_errno r)) s1)
        else (rc, s1))"

text \<open>The per-client loop of \<open>main\<close> (lines 281 to 284). A connection is \<open>Connected\<close>
  while the loop iterates and \<open>Closed\<close> once \<open>break\<close> is taken. The loop has no other
  exit: when the script of receive results is used up the program is blocked inside
  \<open>modbus_receive\<close>, still \<open>Connected\<close>.\<close>

datatype connection = Connected | Closed

fun client_loop ::
  "(byte list \<Rightarrow> int \<Rightarrow> 'm \<Rightarrow> 'm replied) \<Rightarrow> bool \<Rightarrow> received list \<Rightarrow> 'm server
     \<Rightarrow> connection \<times> received list \<times> 'm server" where
  "client_loop modbus_reply debug [] s = (Connected, [], s)"
| "client_loop modbus_reply debug (r # rs) s =
    (case handle_client_request modbus_reply r debug s of
       (rc, s') \<Rightarrow>
         if rc = -1 then (Closed, rs, s')
         else client_loop modbus_reply debug rs s')"

text \<open>The accept loop of \<open>main\<close> (lines 269 to 285). Each element of the first script is
  the result of one call of \<open>modbus_tcp_accept\<close>: the client socket and the \<open>errno\<close> left
  by the call. The loop has no exit; the function returns the state in which the program
  is blocked when the scripts are used up.\<close>

fun accept_loop ::
  "(byte list \<Rightarrow> int \<Rightarrow> 'm \<Rightarrow> 'm replied) \<Rightarrow> bool \<Rightarrow> (int \<times> int) list \<Rightarrow> received list
     \<Rightarrow> 'm server \<Rightarrow> 'm server" where
  "accept_loop modbus_reply debug [] rs s = s"
| "accept_loop modbus_reply debug ((client_socket, err) # acs) rs s0 =
    (let s1 = emit (Accepted client_socket) s0
     in if client_socket = -1 then
          accept_loop modbus_reply debug acs rs (emit (Error_accepting err) s1)
        else
          let s2 = s1\<lparr>open_sockets := open_sockets s1 @ [client_socket]\<rparr>;
              s3 = debug_print_func debug Info_connected s2
          in case client_loop modbus_reply debug rs s3 of
               (Closed, rs', s4) \<Rightarrow> accept_loop modbus_reply debug acs rs' s4
             | (Connected, rs', s4) \<Rightarrow> s4)"

text \<open>What the outside world answers to the library calls of one run of the program.\<close>

record environment =
  new_tcp_ok :: bool
  listen_socket :: int
  startup_errno :: int
  accepts :: "(int \<times> int) list"
  receives :: "received list"

text \<open>\<open>init_modbus_server\<close> (lines 112 to 119): \<open>True\<close> for a context, \<open>False\<close> for
  \<open>NULL\<close>.\<close>

definition init_modbus_server :: "environment \<Rightarrow> bool \<times> event list" where
  "init_modbus_server env =
    (if \<not> new_tcp_ok env then (False, [Error_initializing (startup_errno env)])
     else (True, []))"

text \<open>\<open>init_modbus_mapping\<close> (lines 129 to 136); \<open>None\<close> is \<open>NULL\<close>.\<close>

definition init_modbus_mapping ::
  "(int \<Rightarrow> int \<Rightarrow> int \<Rightarrow> int \<Rightarrow> 'm option) \<Rightarrow> environment \<Rightarrow> int \<Rightarrow> 'm option \<times> event list" where
  "init_modbus_mapping modbus_mapping_new env reg_count =
    (case modbus_mapping_new 0 0 reg_count 0 of
       None \<Rightarrow> (None, [Error_allocating (startup_errno env)])
     | Some m \<Rightarrow> (Some m, []))"

text \<open>\<open>start_listening\<close> (lines 145 to 152).\<close>

definition start_listening :: "environment \<Rightarrow> int \<times> event list" where
  "start_listening env =
    (let server_socket = listen_socket env
     in if server_socket = -1 then (-1, [Error_listening (startup_errno env)])
        else (server_socket, []))"

text \<open>\<open>main\<close> (lines 239 to 292), after \<open>parse_arguments\<close> has fixed \<open>reg_count\<close> and
  \<open>debug\<close>. Either \<open>main\<close> returns during startup, or it is inside \<open>while (1)\<close> for
  good.\<close>

datatype 'm outcome = Exited int "event list" | Serving "'m server"

definition main ::
  "(int \<Rightarrow> int \<Rightarrow> int \<Rightarrow> int \<Rightarrow> 'm option) \<Rightarrow> (byte list \<Rightarrow> int \<Rightarrow> 'm \<Rightarrow> 'm replied)
     \<Rightarrow> environment \<Rightarrow> int \<Rightarrow> bool \<Rightarrow> 'm outcome" where
  "main modbus_mapping_new modbus_reply env reg_count debug =
    (let e0 = [Settings_printed] in
     case init_modbus_server env of
       (False, e1) \<Rightarrow> Exited (-1) (e0 @ e1)
     | (True, e1) \<Rightarrow>
        (case init_modbus_mapping modbus_mapping_new env reg_count of
           (None, e2) \<Rightarrow> Exited (-1) (e0 @ e1 @ e2 @ [Context_freed])
         | (Some m, e2) \<Rightarrow>
            (case start_listening env of
               (server_socket, e3) \<Rightarrow>
                 if server_socket = -1 then
                   Exited (-1) (e0 @ e1 @ e2 @ e3 @ [Mapping_freed, Context_freed])
                 else
                   Serving (accept_loop modbus_reply debug (accepts env) (receives env)
                     \<lparr>mb_mapping = m, open_sockets = [],
                      events = e0 @ e1 @ e2 @ e3 @ [Info_listening]\<rparr>))))"

text \<open>The exit status that the parent process sees is the low eight bits of the value
  returned by \<open>main\<close>.\<close>

definition exit_status :: "int \<Rightarrow> int" where
  "exit_status r = r mod 256"

section \<open>The Modbus library, modelled from the specification\<close>

text \<open>
  The protocol work (frame decoding, dispatch on the function code, the register store,
  reply encoding) is done inside \<open>modbus_receive\<close>, \<open>modbus_reply\<close> and
  \<open>modbus_mapping_new\<close>, whose code is not part of the source. The definitions of this
  section follow the specification of that work (sections 3, 4, 6 and 7 of the spec).
  Byte layouts of the individual requests and replies, which the spec leaves to the
  Modbus protocol it names, are those of the Modbus application protocol.
\<close>

subsection \<open>Big-endian fields\<close>

text \<open>Modelled from the spec: the byte order of the 16-bit fields that the absent library
  reads and writes ("byte order is big-endian for all multi-byte fields").\<close>

definition be16 :: "byte \<Rightarrow> byte \<Rightarrow> 16 word" where
  "be16 hi lo = push_bit 8 (ucast hi) OR ucast lo"

definition hi_byte :: "16 word \<Rightarrow> byte" where
  "hi_byte w = ucast (drop_bit 8 w)"

definition lo_byte :: "16 word \<Rightarrow> byte" where
  "lo_byte w = ucast w"

subsection \<open>Frame codec (spec 4.1)\<close>

text \<open>Modelled from the spec: the MBAP header and the PDU that the absent frame codec
  produces. A PDU is a function code and a function-specific payload.\<close>

record mbap =
  transaction_id :: "16 word"
  protocol_id :: "16 word"
  length_field :: "16 word"
  unit_id :: byte

record pdu =
  function_code :: byte
  payload :: "byte list"

text \<open>Modelled from the spec: the one error of the absent frame codec.\<close>

datatype frame_error = MalformedFrame

text \<open>Modelled from the spec: \<open>decode\<close> of the absent frame codec. It fails when fewer
  than 7 bytes are available, when the protocol identifier is not 0, and when the length
  field (the byte count of unit identifier and PDU) disagrees with the bytes present. A
  frame that ends with its header has no function code, hence no PDU to return, and is
  malformed as well.\<close>

fun decode :: "byte list \<Rightarrow> frame_error + (mbap \<times> pdu)" where
  "decode (t1 # t0 # p1 # p0 # l1 # l0 # u # body) =
     (let h = \<lparr>transaction_id = be16 t1 t0, protocol_id = be16 p1 p0,
                length_field = be16 l1 l0, unit_id = u\<rparr>
      in if protocol_id h \<noteq> 0 then Inl MalformedFrame
         else if unat (length_field h) \<noteq> 1 + length body then Inl MalformedFrame
         else (case body of
                 [] \<Rightarrow> Inl MalformedFrame
               | fc # pl \<Rightarrow> Inr (h, \<lparr>function_code = fc, payload = pl\<rparr>)))"
| "decode bs = Inl MalformedFrame"

text \<open>Modelled from the spec: \<open>encode\<close> of the absent frame codec. The length is
  recomputed from the PDU; transaction identifier and unit identifier are copied from
  the header of the request.\<close>

definition encode :: "mbap \<Rightarrow> pdu \<Rightarrow> byte list" where
  "encode h p =
    (let body = function_code p # payload p;
         len = (of_nat (1 + length body) :: 16 word)
     in [hi_byte (transaction_id h), lo_byte (transaction_id h),
         hi_byte (protocol_id h), lo_byte (protocol_id h),
         hi_byte len, lo_byte len, unit_id h] @ body)"

text \<open>Modelled from the spec: the exception codes of the absent dispatcher, with the
  bytes that stand for them (0x01, 0x02, 0x03).\<close>

datatype exception_code = IllegalFunction | IllegalDataAddress | IllegalDataValue

fun exception_byte :: "exception_code \<Rightarrow> byte" where
  "exception_byte IllegalFunction = 0x01"
| "exception_byte IllegalDataAddress = 0x02"
| "exception_byte IllegalDataValue = 0x03"

text \<open>Modelled from the spec: \<open>encode_exception\<close> of the absent frame codec. It sets the
  high bit of the function code and appends the single exception byte.\<close>

definition encode_exception :: "mbap \<Rightarrow> byte \<Rightarrow> exception_code \<Rightarrow> byte list" where
  "encode_exception h fc ex =
     encode h \<lparr>function_code = fc OR 0x80, payload = [exception_byte ex]\<rparr>"

subsection \<open>Register store (spec 3 and 4.3)\<close>

text \<open>Modelled from the spec: the register store behind the absent \<open>modbus_mapping_t\<close>.
  Four independent, zero-indexed, fixed-size spaces: coils, discrete inputs, holding
  registers, input registers.\<close>

record register_store =
  coils :: "bool list"
  discrete_inputs :: "bool list"
  holding_registers :: "16 word list"
  input_registers :: "16 word list"

text \<open>Modelled from the spec: the one error of the absent store.\<close>

datatype store_error = OutOfRange

text \<open>Modelled from the spec: the bounds rule of the absent store. An access to \<open>count\<close>
  addresses from \<open>start\<close> on is within a space of size \<open>n\<close> when \<open>start + count\<close> does not
  exceed \<open>n\<close>; otherwise it fails, and nothing is clamped.\<close>

definition within_space :: "nat \<Rightarrow> nat \<Rightarrow> nat \<Rightarrow> bool" where
  "within_space n start count = (start + count \<le> n)"

text \<open>Modelled from the spec: \<open>read(space, start, count)\<close> of the absent store.\<close>

definition read_space :: "'a list \<Rightarrow> nat \<Rightarrow> nat \<Rightarrow> store_error + 'a list" where
  "read_space xs start count =
    (if within_space (length xs) start count then Inr (take count (drop start xs))
     else Inl OutOfRange)"

text \<open>Modelled from the spec: \<open>write(space, start, values)\<close> of the absent store; all
  values are written or none.\<close>

definition write_space :: "'a list \<Rightarrow> nat \<Rightarrow> 'a list \<Rightarrow> store_error + 'a list" where
  "write_space xs start vs =
    (if within_space (length xs) start (length vs)
     then Inr (take start xs @ vs @ drop (start + length vs) xs)
     else Inl OutOfRange)"

text \<open>Modelled from the spec: what the absent \<open>modbus_mapping_new(nb_bits, nb_input_bits,
  nb_registers, nb_input_registers)\<close> returns: a store with the four sizes, every value
  0, or \<open>NULL\<close> when the allocation fails (\<open>alloc_ok\<close> is the allocator's answer).\<close>

definition modbus_mapping_new ::
  "bool \<Rightarrow> int \<Rightarrow> int \<Rightarrow> int \<Rightarrow> int \<Rightarrow> register_store option" where
  "modbus_mapping_new alloc_ok nb_bits nb_input_bits nb_registers nb_input_registers =
    (if alloc_ok then
       Some \<lparr>coils = replicate (nat nb_bits) False,
             discrete_inputs = replicate (nat nb_input_bits) False,
             holding_registers = replicate (nat nb_registers) 0,
             input_registers = replicate (nat nb_input_registers) 0\<rparr>
     else None)"

subsection \<open>Request dispatcher (spec 4.2)\<close>

text \<open>Modelled from the spec: how the absent dispatcher lays bits and registers out in
  bytes. Eight bits to a byte, the first in the lowest bit; a register as two bytes, high
  byte first.\<close>

fun byte_of_bits :: "bool list \<Rightarrow> byte" where
  "byte_of_bits [] = 0"
| "byte_of_bits (b # bs) = (if b then 1 else 0) + 2 * byte_of_bits bs"

fun pack_bits :: "bool list \<Rightarrow> byte list" where
  "pack_bits [] = []"
| "pack_bits (b # bs) = byte_of_bits (take 8 (b # bs)) # pack_bits (drop 7 bs)"

definition unpack_bits :: "nat \<Rightarrow> byte list \<Rightarrow> bool list" where
  "unpack_bits count data = take count (concat (map (\<lambda>b. map (bit b) [0..<8]) data))"

definition register_bytes :: "16 word list \<Rightarrow> byte list" where
  "register_bytes ws = concat (map (\<lambda>w. [hi_byte w, lo_byte w]) ws)"

fun registers_of :: "byte list \<Rightarrow> 16 word list" where
  "registers_of (h # l # bs) = be16 h l # registers_of bs"
| "registers_of bs = []"

text \<open>Modelled from the spec: the supported function codes of the absent dispatcher.\<close>

definition supported_codes :: "byte list" where
  "supported_codes = [0x01, 0x02, 0x03, 0x04, 0x05, 0x06, 0x0F, 0x10]"

text \<open>Modelled from the spec: the two read operations of the absent dispatcher. An
  address out of range is Illegal Data Address, for every request whose
  \<open>start + count\<close> exceeds the space; a count outside the legal range is Illegal Data
  Value.\<close>

definition read_bits :: "bool list \<Rightarrow> nat \<Rightarrow> nat \<Rightarrow> exception_code + byte list" where
  "read_bits space start count =
    (case read_space space start count of
       Inl OutOfRange \<Rightarrow> Inl IllegalDataAddress
     | Inr vs \<Rightarrow>
         if count < 1 \<or> 2000 < count then Inl IllegalDataValue
         else Inr (of_nat (length (pack_bits vs)) # pack_bits vs))"

definition read_registers :: "16 word list \<Rightarrow> nat \<Rightarrow> nat \<Rightarrow> exception_code + byte list" where
  "read_registers space start count =
    (case read_space space start count of
       Inl OutOfRange \<Rightarrow> Inl IllegalDataAddress
     | Inr vs \<Rightarrow>
         if count < 1 \<or> 125 < count then Inl IllegalDataValue
         else Inr (of_nat (2 * length vs) # register_bytes vs))"

text \<open>Modelled from the spec: the absent request dispatcher. It yields the payload of
  the reply or an exception code, and the store it leaves. Every supported request
  starts with two 16-bit fields (address, then count or value); a payload too short to
  hold its operands is answered with Illegal Data Value, a case on which the spec is
  silent.\<close>

definition dispatch ::
  "register_store \<Rightarrow> pdu \<Rightarrow> (exception_code + byte list) \<times> register_store" where
  "dispatch store p =
    (let fc = function_code p in
     if fc \<notin> set supported_codes then (Inl IllegalFunction, store)
     else case payload p of
       a1 # a0 # b1 # b0 # rest \<Rightarrow>
         (let start = unat (be16 a1 a0);
              field = be16 b1 b0;
              count = unat field
          in if fc = 0x01 then (read_bits (coils store) start count, store)
             else if fc = 0x02 then (read_bits (discrete_inputs store) start count, store)
             else if fc = 0x03 then
               (read_registers (holding_registers store) start count, store)
             else if fc = 0x04 then
               (read_registers (input_registers store) start count, store)
             else if fc = 0x05 then
               (case write_space (coils store) start [field = 0xFF00] of
                  Inl OutOfRange \<Rightarrow> (Inl IllegalDataAddress, store)
                | Inr cs \<Rightarrow>
                    if field = 0x0000 \<or> field = 0xFF00
                    then (Inr [a1, a0, b1, b0], store\<lparr>coils := cs\<rparr>)
                    else (Inl IllegalDataValue, store))
             else if fc = 0x06 then
               (case write_space (holding_registers store) start [field] of
                  Inl OutOfRange \<Rightarrow> (Inl IllegalDataAddress, store)
                | Inr rs \<Rightarrow> (Inr [a1, a0, b1, b0], store\<lparr>holding_registers := rs\<rparr>))
             else if fc = 0x0F then
               (if within_space (length (coils store)) start count then
                  (case rest of
                     [] \<Rightarrow> (Inl IllegalDataValue, store)
                   | bc # data \<Rightarrow>
                       if unat bc = (count + 7) div 8 \<and> unat bc \<le> length data then
                         (case write_space (coils store) start (unpack_bits count data) of
                            Inl OutOfRange \<Rightarrow> (Inl IllegalDataAddress, store)
                          | Inr cs \<Rightarrow> (Inr [a1, a0, b1, b0], store\<lparr>coils := cs\<rparr>))
                       else (Inl IllegalDataValue, store))
                else (Inl IllegalDataAddress, store))
             else
               (if within_space (length (holding_registers store)) start count then
                  (case rest of
                     [] \<Rightarrow> (Inl IllegalDataValue, store)
                   | bc # data \<Rightarrow>
                       if unat bc = count * 2 \<and> unat bc \<le> length data then
                         (case write_space (holding_registers store) start
                                 (take count (registers_of data)) of
                            Inl OutOfRange \<Rightarrow> (Inl IllegalDataAddress, store)
                          | Inr rs \<Rightarrow>
                              (Inr [a1, a0, b1, b0], store\<lparr>holding_registers := rs\<rparr>))
                       else (Inl IllegalDataValue, store))
                else (Inl IllegalDataAddress, store)))
     | short \<Rightarrow> (Inl IllegalDataValue, store))"

subsection \<open>The two library calls of \<open>handle_client_request\<close>\<close>

text \<open>Modelled from the spec: what a read on the client connection, made inside the
  absent \<open>modbus_receive\<close>, returns: some bytes (possibly none), or the signal that the
  peer has reset or closed the connection.\<close>

datatype read_result = Bytes "byte list" | Reset

text \<open>Modelled from the spec: the \<open>errno\<close> with which the absent \<open>modbus_receive\<close>
  reports MalformedFrame. The spec fixes no value; the program only compares \<open>errno\<close>
  with \<open>ECONNRESET\<close>, so any other value gives the same behaviour.\<close>

definition EMBBADDATA :: int where
  "EMBBADDATA = 112345691"

text \<open>Modelled from the spec: what the absent \<open>modbus_receive\<close> returns. A read of zero
  bytes or a reset is ConnectionClosed, reported as \<open>-1\<close> with \<open>ECONNRESET\<close> (the case
  that the program calls "Client disconnected"); a frame that \<open>decode\<close> rejects is
  MalformedFrame, reported as \<open>-1\<close> with another \<open>errno\<close>; otherwise the frame is stored
  in \<open>query\<close> and its length returned.\<close>

definition modbus_receive :: "read_result \<Rightarrow> received" where
  "modbus_receive r =
    (case r of
       Reset \<Rightarrow> \<lparr>recv_rc = -1, recv_errno = ECONNRESET, recv_query = []\<rparr>
     | Bytes bs \<Rightarrow>
         if bs = [] then \<lparr>recv_rc = -1, recv_errno = ECONNRESET, recv_query = []\<rparr>
         else (case decode bs of
                 Inl MalformedFrame \<Rightarrow>
                   \<lparr>recv_rc = -1, recv_errno = EMBBADDATA, recv_query = bs\<rparr>
               | Inr frame \<Rightarrow>
                   \<lparr>recv_rc = int (length bs), recv_errno = 0, recv_query = bs\<rparr>))"

text \<open>Modelled from the spec: what the absent \<open>modbus_reply\<close> does with a request of
  \<open>rc\<close> bytes: decode, dispatch, encode the reply or the exception, write it to the
  client, and return the number of bytes written. Without a valid header no reply is
  possible.\<close>

definition modbus_reply :: "byte list \<Rightarrow> int \<Rightarrow> register_store \<Rightarrow> register_store replied" where
  "modbus_reply query rc store =
    (case decode (take (nat rc) query) of
       Inl MalformedFrame \<Rightarrow> \<lparr>reply_rc = -1, reply_sent = [], reply_mapping = store\<rparr>
     | Inr (h, p) \<Rightarrow>
        (case dispatch store p of
           (Inl ex, store') \<Rightarrow>
             (let out = encode_exception h (function_code p) ex
              in \<lparr>reply_rc = int (length out), reply_sent = out, reply_mapping = store'\<rparr>)
         | (Inr body, store') \<Rightarrow>
             (let out = encode h \<lparr>function_code = function_code p, payload = body\<rparr>
              in \<lparr>reply_rc = int (length out), reply_sent = out, reply_mapping = store'\<rparr>)))"

section \<open>Notions used to state the properties\<close>

text \<open>The frames written to clients, in order, as recorded in the events.\<close>

definition frames_sent :: "event list \<Rightarrow> byte list list" where
  "frames_sent evs = concat (map (\<lambda>e. case e of Replied rc bs \<Rightarrow> [bs] | _ \<Rightarrow> []) evs)"

text \<open>One pass through \<open>handle_client_request\<close> with the modelled library: \<open>raw\<close> is
  what the read on the client connection returns.\<close>

definition serve ::
  "bool \<Rightarrow> read_result \<Rightarrow> register_store server \<Rightarrow> int \<times> register_store server" where
  "serve debug raw s = handle_client_request modbus_reply (modbus_receive raw) debug s"

text \<open>The transaction identifier field of a frame: its first two bytes.\<close>

fun frame_transaction_id :: "byte list \<Rightarrow> 16 word option" where
  "frame_transaction_id (t1 # t0 # bs) = Some (be16 t1 t0)"
| "frame_transaction_id bs = None"


text \<open>The size of the space that a supported function code addresses, and the number of
  addresses that a request names: one for the two single writes, the count field
  otherwise.\<close>

definition addressed_space_size :: "register_store \<Rightarrow> byte \<Rightarrow> nat" where
  "addressed_space_size store fc =
     (if fc = 0x01 \<or> fc = 0x05 \<or> fc = 0x0F then length (coils store)
      else if fc = 0x02 then length (discrete_inputs store)
      else if fc = 0x04 then length (input_registers store)
      else length (holding_registers store))"

definition addressed_count :: "byte \<Rightarrow> 16 word \<Rightarrow> nat" where
  "addressed_count fc field = (if fc = 0x05 \<or> fc = 0x06 then 1 else unat field)"

text \<open>A monitor for "one client at a time", run over the events of the program. The
  server is \<open>Idle\<close> (no client), \<open>Busy\<close> (one client accepted, waiting for its next
  request) or \<open>Replying\<close> (a request of that client received, its reply pending). A
  call of \<open>modbus_tcp_accept\<close> is allowed only when \<open>Idle\<close>, and the server is \<open>Idle\<close>
  again only after a request of the client has ended with \<open>-1\<close>. \<open>None\<close> is a violation.\<close>

datatype phase = Idle | Busy | Replying

fun one_client_step :: "phase option \<Rightarrow> event \<Rightarrow> phase option" where
  "one_client_step None e = None"
| "one_client_step (Some p) (Accepted c) =
     (if p = Idle then Some (if c = -1 then Idle else Busy) else None)"
| "one_client_step (Some p) (Received rc) =
     (if p = Busy then Some (if rc > 0 then Replying else if rc = -1 then Idle else Busy)
      else None)"
| "one_client_step (Some p) (Replied rc bs) =
     (if p = Replying then Some (if rc = -1 then Idle else Busy) else None)"
| "one_client_step (Some p) e = Some p"

definition phase_after :: "event list \<Rightarrow> phase option" where
  "phase_after evs = foldl one_client_step (Some Idle) evs"

definition one_client_at_a_time :: "event list \<Rightarrow> bool" where
  "one_client_at_a_time evs = (case phase_after evs of None \<Rightarrow> False | Some p \<Rightarrow> True)"

text \<open>The events of a run of \<open>main\<close>.\<close>

fun trace :: "'m outcome \<Rightarrow> event list" where
  "trace (Exited r evs) = evs"
| "trace (Serving s) = events s"

text \<open>The events that belong to accepting or serving a client.\<close>

fun client_event :: "event \<Rightarrow> bool" where
  "client_event (Accepted c) = True"
| "client_event (Error_accepting e) = True"
| "client_event Info_connected = True"
| "client_event (Received rc) = True"
| "client_event (Query_printed n) = True"
| "client_event (Replied rc bs) = True"
| "client_event (Response_printed n) = True"
| "client_event Info_disconnected = True"
| "client_event (Error_receiving e) = True"
| "client_event e = False"


text \<open>Concrete values for the instances below: a server with the default ten holding
  registers, all 0, that serves the client on socket 5; and an outside world in which
  startup succeeds, the first accept fails, the second yields socket 5, and that client
  sends Write Single Register(address 3, value 0x1234).\<close>

definition ten_registers :: "register_store server" where
  "ten_registers =
     \<lparr>mb_mapping = \<lparr>coils = [], discrete_inputs = [],
                    holding_registers = [0, 0, 0, 0, 0, 0, 0, 0, 0, 0],
                    input_registers = []\<rparr>,
      open_sockets = [5], events = []\<rparr>"

definition one_writer :: environment where
  "one_writer =
     \<lparr>new_tcp_ok = True, listen_socket = 3, startup_errno = 0,
      accepts = [(-1, 24), (5, 0)],
      receives = [modbus_receive (Bytes [0, 1, 0, 0, 0, 6, 1, 0x06, 0, 3, 0x12, 0x34])]\<rparr>"

section \<open>Facts about the modelled library\<close>

subsection \<open>Big-endian fields\<close>

lemma be16_split [simp]: "be16 (hi_byte w) (lo_byte w) = w"
  unfolding be16_def hi_byte_def lo_byte_def
  by (rule bit_word_eqI) (auto simp: bit_simps)

lemma hi_byte_be16 [simp]: "hi_byte (be16 a b) = a"
  unfolding be16_def hi_byte_def
  by (rule bit_word_eqI) (auto simp: bit_simps dest: bit_imp_le_length)

lemma lo_byte_be16 [simp]: "lo_byte (be16 a b) = b"
  unfolding be16_def lo_byte_def
  by (rule bit_word_eqI) (auto simp: bit_simps)

lemma small_fields [simp]:
  "hi_byte 0 = 0" "lo_byte 0 = 0" "be16 0 0 = 0" "be16 0 1 = 1" "unat (be16 0 6) = 6"
  by (simp_all add: hi_byte_def lo_byte_def be16_def)

subsection \<open>Frames\<close>

lemma frames_sent_append [simp]: "frames_sent (xs @ ys) = frames_sent xs @ frames_sent ys"
  by (simp add: frames_sent_def)

lemma frames_sent_simps [simp]:
  "frames_sent [] = []"
  "frames_sent (Replied rc bs # es) = bs # frames_sent es"
  "frames_sent (Received rc # es) = frames_sent es"
  "frames_sent (Query_printed rc # es) = frames_sent es"
  "frames_sent (Response_printed rc # es) = frames_sent es"
  "frames_sent (Info_disconnected # es) = frames_sent es"
  "frames_sent (Error_receiving rc # es) = frames_sent es"
  by (simp_all add: frames_sent_def)

lemma encode_not_empty [simp]: "encode h p \<noteq> []"
  by (simp add: encode_def Let_def)

lemma encode_exception_bytes:
  "encode_exception h fc ex =
     [hi_byte (transaction_id h), lo_byte (transaction_id h),
      hi_byte (protocol_id h), lo_byte (protocol_id h), 0, 3, unit_id h,
      fc OR 0x80, exception_byte ex]"
  by (simp add: encode_exception_def encode_def Let_def hi_byte_def lo_byte_def)

text \<open>A frame that decodes is its header fields followed by the PDU.\<close>

lemma decode_Inr:
  assumes "decode bs = Inr (h, p)"
  shows "bs = [hi_byte (transaction_id h), lo_byte (transaction_id h), 0, 0,
               hi_byte (length_field h), lo_byte (length_field h), unit_id h, function_code p]
              @ payload p"
    and "protocol_id h = 0"
    and "unat (length_field h) = 2 + length (payload p)"
proof -
  obtain t1 t0 p1 p0 l1 l0 u fc pl where bs: "bs = t1 # t0 # p1 # p0 # l1 # l0 # u # fc # pl"
    using assms by (cases bs rule: decode.cases) (auto simp: Let_def split: if_splits list.splits)
  from assms have h: "h = \<lparr>transaction_id = be16 t1 t0, protocol_id = be16 p1 p0,
                length_field = be16 l1 l0, unit_id = u\<rparr>"
    and p: "p = \<lparr>function_code = fc, payload = pl\<rparr>"
    and z: "be16 p1 p0 = 0" and l: "unat (be16 l1 l0) = 2 + length pl"
    by (auto simp: bs Let_def split: if_splits)
  have "hi_byte (be16 p1 p0) = 0" "lo_byte (be16 p1 p0) = 0"
    unfolding z by simp_all
  then have "p1 = 0" "p0 = 0" by simp_all
  then show "bs = [hi_byte (transaction_id h), lo_byte (transaction_id h), 0, 0,
               hi_byte (length_field h), lo_byte (length_field h), unit_id h, function_code p]
              @ payload p" by (simp add: bs h p)
  show "protocol_id h = 0" by (simp add: h z)
  show "unat (length_field h) = 2 + length (payload p)" by (simp add: h p l)
qed


text \<open>A request of four payload bytes, as the client writes it.\<close>

lemma decode_short_request:
  "decode [hi_byte t, lo_byte t, 0, 0, 0, 6, u, fc, a, b, c, d] =
     Inr (\<lparr>transaction_id = t, protocol_id = 0, length_field = be16 0 6, unit_id = u\<rparr>,
          \<lparr>function_code = fc, payload = [a, b, c, d]\<rparr>)"
  by (simp add: Let_def)

subsection \<open>One request\<close>

text \<open>What \<open>handle_client_request\<close> does with a frame that decodes.\<close>

lemma serve_decoded:
  assumes "decode bs = Inr (h, p)"
  shows "serve debug (Bytes bs) s =
    (let r = dispatch (mb_mapping s) p;
         out = (case fst r of Inl ex \<Rightarrow> encode_exception h (function_code p) ex
                | Inr body \<Rightarrow> encode h \<lparr>function_code = function_code p, payload = body\<rparr>);
         n = int (length out)
     in (n, s\<lparr>mb_mapping := snd r,
              events := events s @ Received (int (length bs))
                # (if debug then [Query_printed (int (length bs))] else [])
                @ Replied n out # (if debug then [Response_printed n] else [])\<rparr>))"
proof -
  from decode_Inr(1) [OF assms] have ne: "bs \<noteq> []" by auto
  show ?thesis
    using ne assms
    by (cases "dispatch (mb_mapping s) p"; cases "fst (dispatch (mb_mapping s) p)")
       (simp_all add: serve_def modbus_receive_def handle_client_request_def Let_def emit_def
           modbus_reply_def encode_exception_def)
qed

text \<open>An exception reply: nine bytes, the store untouched, the loop goes on.\<close>

lemma serve_exception:
  assumes "decode bs = Inr (h, p)"
    and "dispatch (mb_mapping s) p = (Inl ex, mb_mapping s)"
  shows "fst (serve debug (Bytes bs) s) = 9"
    and "frames_sent (events (snd (serve debug (Bytes bs) s))) = frames_sent (events s) @
           [[hi_byte (transaction_id h), lo_byte (transaction_id h), 0, 0, 0, 3, unit_id h,
             function_code p OR 0x80, exception_byte ex]]"
    and "mb_mapping (snd (serve debug (Bytes bs) s)) = mb_mapping s"
  by (simp_all add: serve_decoded [OF assms(1)] assms(2) Let_def encode_exception_bytes
        decode_Inr(2) [OF assms(1)])

lemma client_loop_serve:
  "client_loop modbus_reply debug (modbus_receive raw # rs) s =
     (if fst (serve debug raw s) = -1 then (Closed, rs, snd (serve debug raw s))
      else client_loop modbus_reply debug rs (snd (serve debug raw s)))"
  by (simp add: serve_def split: prod.splits)

text \<open>After an exception reply the per-client loop is still \<open>Connected\<close>, and the next
  request of the connection is handled in the state that the reply has left.\<close>

lemma exception_reply_keeps_serving:
  assumes "decode bs = Inr (h, p)"
    and "dispatch (mb_mapping s) p = (Inl ex, mb_mapping s)"
  shows "\<exists>s'. s' = s\<lparr>events := events s @ Received (int (length bs))
                       # (if debug then [Query_printed (int (length bs))] else [])
                       @ Replied 9 [hi_byte (transaction_id h), lo_byte (transaction_id h),
                                    0, 0, 0, 3, unit_id h, function_code p OR 0x80,
                                    exception_byte ex]
                       # (if debug then [Response_printed 9] else [])\<rparr>
     \<and> serve debug (Bytes bs) s = (9, s')
     \<and> frames_sent (events s') = frames_sent (events s) @
         [[hi_byte (transaction_id h), lo_byte (transaction_id h), 0, 0, 0, 3, unit_id h,
           function_code p OR 0x80, exception_byte ex]]
     \<and> mb_mapping s' = mb_mapping s
     \<and> client_loop modbus_reply debug (modbus_receive (Bytes bs) # rs) s
         = client_loop modbus_reply debug rs s'
     \<and> client_loop modbus_reply debug [modbus_receive (Bytes bs)] s = (Connected, [], s')
     \<and> client_loop modbus_reply debug [modbus_receive (Bytes bs), modbus_receive next] s
         = (if fst (serve debug next s') = -1 then Closed else Connected, [],
            snd (serve debug next s'))"
proof -
  let ?s' = "snd (serve debug (Bytes bs) s)"
  note ex = serve_exception [OF assms, of debug]
  from ex(1) have sv: "serve debug (Bytes bs) s = (9, ?s')"
    by (cases "serve debug (Bytes bs) s") simp
  have st: "?s' = s\<lparr>events := events s @ Received (int (length bs))
                       # (if debug then [Query_printed (int (length bs))] else [])
                       @ Replied 9 [hi_byte (transaction_id h), lo_byte (transaction_id h),
                                    0, 0, 0, 3, unit_id h, function_code p OR 0x80,
                                    exception_byte ex]
                       # (if debug then [Response_printed 9] else [])\<rparr>"
    by (simp add: serve_decoded [OF assms(1)] assms(2) Let_def encode_exception_bytes
          decode_Inr(2) [OF assms(1)])
  have c1: "client_loop modbus_reply debug (modbus_receive (Bytes bs) # rs') s
         = client_loop modbus_reply debug rs' ?s'" for rs'
    by (subst client_loop_serve) (simp add: ex(1))
  have c2: "client_loop modbus_reply debug [modbus_receive next] ?s'
         = (if fst (serve debug next ?s') = -1 then Closed else Connected, [],
            snd (serve debug next ?s'))"
    by (subst client_loop_serve) simp
  show ?thesis
    using st sv ex(2,3) c1 [of rs] c1 [of "[]"] c1 [of "[modbus_receive next]"] c2
    by (intro exI [of _ ?s']) simp
qed

subsection \<open>The dispatcher\<close>

lemma supported_cases:
  "fc \<in> set supported_codes \<Longrightarrow>
     fc = 0x01 \<or> fc = 0x02 \<or> fc = 0x03 \<or> fc = 0x04 \<or> fc = 0x05 \<or> fc = 0x06
       \<or> fc = 0x0F \<or> fc = 0x10"
  by (auto simp: supported_codes_def)

lemma dispatch_out_of_range:
  assumes "function_code p \<in> set supported_codes"
    and "payload p = a1 # a0 # b1 # b0 # rest"
    and "addressed_space_size store (function_code p)
           < unat (be16 a1 a0) + addressed_count (function_code p) (be16 b1 b0)"
  shows "dispatch store p = (Inl IllegalDataAddress, store)"
  using supported_cases [OF assms(1)] assms(2,3)
  by (elim disjE)
     (simp_all add: dispatch_def supported_codes_def Let_def addressed_space_size_def
        addressed_count_def read_bits_def read_registers_def read_space_def write_space_def
        within_space_def)


lemma write_then_read:
  fixes xs :: "'a list"
  assumes "n < length xs"
  shows "write_space xs n [v] = Inr (xs[n := v])"
    and "read_space (xs[n := v]) n 1 = Inr [v]"
  using assms
  by (simp_all add: write_space_def read_space_def within_space_def upd_conv_take_nth_drop
        take_Suc_conv_app_nth drop_Suc hd_drop_conv_nth take_Suc)


subsection \<open>The sizes of the spaces never change\<close>










section \<open>Facts about the loops of \<open>main\<close>\<close>

lemma phase_after_emit:
  "phase_after (events (emit e s)) = one_client_step (phase_after (events s)) e"
  by (simp add: phase_after_def emit_def)

lemma phase_request:
  assumes "phase_after (events s) = Some Busy"
    and "handle_client_request rp r d s = (rc, s')"
  shows "phase_after (events s') = Some (if rc = -1 then Idle else Busy)"
  using assms
  by (auto simp: handle_client_request_def Let_def phase_after_emit debug_print_func_def
      split: if_splits)

lemma phase_client_loop:
  "phase_after (events s) = Some Busy \<Longrightarrow> client_loop rp d rs s = (c, rs', s')
    \<Longrightarrow> phase_after (events s') = Some (if c = Closed then Idle else Busy)"
proof (induction rs arbitrary: s)
  case Nil
  then show ?case by simp
next
  case (Cons r rs)
  obtain rc s1 where h: "handle_client_request rp r d s = (rc, s1)"
    by (cases "handle_client_request rp r d s")
  from phase_request [OF Cons.prems(1) h]
  have p1: "phase_after (events s1) = Some (if rc = -1 then Idle else Busy)" .
  show ?case
  proof (cases "rc = -1")
    case True
    with Cons.prems(2) h p1 show ?thesis by simp
  next
    case False
    with Cons.prems(2) h have "client_loop rp d rs s1 = (c, rs', s')" by simp
    moreover from False p1 have "phase_after (events s1) = Some Busy" by simp
    ultimately show ?thesis by (rule Cons.IH [rotated])
  qed
qed

lemma phase_accept_loop:
  "phase_after (events s) = Some Idle
    \<Longrightarrow> \<exists>p. phase_after (events (accept_loop rp d acs rs s)) = Some p"
proof (induction acs arbitrary: rs s)
  case Nil
  then show ?case by simp
next
  case (Cons a acs)
  obtain c err where a: "a = (c, err)" by (cases a)
  show ?case
  proof (cases "c = -1")
    case True
    have "phase_after (events (emit (Error_accepting err) (emit (Accepted c) s))) = Some Idle"
      using Cons.prems True by (simp add: phase_after_emit)
    from Cons.IH [OF this] show ?thesis using a True by (simp add: Let_def)
  next
    case False
    let ?s3 = "debug_print_func d Info_connected
                 (emit (Accepted c) s\<lparr>open_sockets := open_sockets (emit (Accepted c) s) @ [c]\<rparr>)"
    have ev: "events ?s3 = events s @ Accepted c # (if d then [Info_connected] else [])"
      by (simp add: debug_print_func_def emit_def)
    have p3: "phase_after (events ?s3) = Some Busy"
      using Cons.prems False by (simp add: ev) (simp add: phase_after_def)
    obtain st rs' s4 where cl: "client_loop rp d rs ?s3 = (st, rs', s4)"
      by (cases "client_loop rp d rs ?s3")
    from phase_client_loop [OF p3 cl]
    have p4: "phase_after (events s4) = Some (if st = Closed then Idle else Busy)" .
    show ?thesis
    proof (cases st)
      case Connected
      with a False cl p4 show ?thesis by (simp add: Let_def)
    next
      case Closed
      with p4 have "phase_after (events s4) = Some Idle" by simp
      from Cons.IH [OF this] show ?thesis using a False cl Closed by (simp add: Let_def)
    qed
  qed
qed

text \<open>A receive that reports a reset or closed connection: \<open>-1\<close> with \<open>ECONNRESET\<close>.\<close>

lemma departure_request:
  assumes "recv_rc r = -1" and "recv_errno r = ECONNRESET"
  shows "handle_client_request rp r debug s =
     (-1, s\<lparr>events := events s @ Received (-1) # (if debug then [Info_disconnected] else [])\<rparr>)"
  by (simp add: handle_client_request_def Let_def assms emit_def debug_print_func_def)

section \<open>The claims\<close>

text \<open>
  C1. For every 16-bit value \<open>v\<close> and every holding-register address \<open>a\<close> within the
  holding-register space: Write Single Register(\<open>a\<close>, \<open>v\<close>) followed by Read Holding
  Registers(start \<open>a\<close>, count 1) returns \<open>[v]\<close>. The first request is echoed (12
  bytes); the reply to the second (11 bytes) carries the byte count 2 and the two bytes of
  \<open>v\<close>, high byte first, which read back as the one register \<open>v\<close>. Transaction and unit
  identifiers of the two requests are arbitrary.
\<close>

theorem write_single_register_then_read_returns_value:
  assumes "unat a < length (holding_registers (mb_mapping s))"
  shows "\<exists>s1 s2.
      serve debug
        (Bytes [hi_byte t, lo_byte t, 0, 0, 0, 6, u, 0x06,
                hi_byte a, lo_byte a, hi_byte v, lo_byte v]) s = (12, s1)
    \<and> serve debug
        (Bytes [hi_byte t', lo_byte t', 0, 0, 0, 6, u', 0x03, hi_byte a, lo_byte a, 0, 1]) s1
        = (11, s2)
    \<and> frames_sent (events s2) = frames_sent (events s) @
         [[hi_byte t, lo_byte t, 0, 0, 0, 6, u, 0x06, hi_byte a, lo_byte a, hi_byte v, lo_byte v],
          [hi_byte t', lo_byte t', 0, 0, 0, 5, u', 0x03, 2, hi_byte v, lo_byte v]]
    \<and> registers_of [hi_byte v, lo_byte v] = [v]"
proof -
  let ?w = "[hi_byte t, lo_byte t, 0, 0, 0, 6, u, 0x06, hi_byte a, lo_byte a, hi_byte v, lo_byte v]"
  let ?r = "[hi_byte t', lo_byte t', 0, 0, 0, 6, u', 0x03, hi_byte a, lo_byte a, 0, 1]"
  let ?m = "mb_mapping s"
  let ?m1 = "?m\<lparr>holding_registers := (holding_registers ?m)[unat a := v]\<rparr>"
  have dw: "dispatch ?m \<lparr>function_code = 0x06,
                payload = [hi_byte a, lo_byte a, hi_byte v, lo_byte v]\<rparr>
      = (Inr [hi_byte a, lo_byte a, hi_byte v, lo_byte v], ?m1)"
    using write_then_read(1) [OF assms, of v]
    by (simp add: dispatch_def supported_codes_def Let_def)
  have dr: "dispatch ?m1 \<lparr>function_code = 0x03, payload = [hi_byte a, lo_byte a, 0, 1]\<rparr>
      = (Inr (2 # register_bytes [v]), ?m1)"
    using write_then_read(2) [OF assms, of v]
    by (simp add: dispatch_def supported_codes_def Let_def read_registers_def)
  have six: "hi_byte 6 = 0" "lo_byte 6 = 6" "hi_byte 5 = 0" "lo_byte 5 = 5"
    by (simp_all add: hi_byte_def lo_byte_def)
  obtain s1 where s1: "serve debug (Bytes ?w) s = (12, s1)"
     and m1: "mb_mapping s1 = ?m1"
     and f1: "frames_sent (events s1) = frames_sent (events s) @ [?w]"
    using serve_decoded [OF decode_short_request [of t u 6 "hi_byte a" "lo_byte a" "hi_byte v"
        "lo_byte v"], of debug s]
    by (simp add: dw Let_def encode_def six)
  have "serve debug (Bytes ?r) s1 = (11, snd (serve debug (Bytes ?r) s1))
      \<and> frames_sent (events (snd (serve debug (Bytes ?r) s1))) = frames_sent (events s1) @
           [[hi_byte t', lo_byte t', 0, 0, 0, 5, u', 0x03, 2, hi_byte v, lo_byte v]]"
    using serve_decoded [OF decode_short_request [of t' u' 3 "hi_byte a" "lo_byte a" 0 1],
        of debug s1]
    by (simp add: m1 dr Let_def encode_def register_bytes_def six)
  with s1 f1 show ?thesis by auto
qed

theorem write_single_register_then_read_returns_value_witness:
  "unat (3 :: 16 word) < length (holding_registers (mb_mapping ten_registers))
   \<and> (\<exists>s1 s2.
        serve False (Bytes [0, 1, 0, 0, 0, 6, 1, 0x06, 0, 3, 0x12, 0x34]) ten_registers = (12, s1)
      \<and> serve False (Bytes [0, 2, 0, 0, 0, 6, 1, 0x03, 0, 3, 0, 1]) s1 = (11, s2)
      \<and> frames_sent (events s2) =
           [[0, 1, 0, 0, 0, 6, 1, 0x06, 0, 3, 0x12, 0x34], [0, 2, 0, 0, 0, 5, 1, 0x03, 2, 0x12, 0x34]]
      \<and> registers_of [0x12, 0x34] = [0x1234])"
proof -
  have h: "unat (3 :: 16 word) < length (holding_registers (mb_mapping ten_registers))"
    by (simp add: ten_registers_def)
  have b: "hi_byte 1 = 0" "lo_byte 1 = 1" "hi_byte 2 = 0" "lo_byte 2 = 2" "hi_byte 3 = 0"
    "lo_byte 3 = 3" "hi_byte 0x1234 = 0x12" "lo_byte 0x1234 = 0x34"
    by (simp_all add: hi_byte_def lo_byte_def)
  have e: "frames_sent (events ten_registers) = []" by (simp add: ten_registers_def)
  from write_single_register_then_read_returns_value [OF h, of False 1 1 "0x1234" 2 1]
  show ?thesis using h by (simp add: b e)
qed

text \<open>
  C2. For every request whose start + count exceeds the size of the addressed space (a
  single write names one address), with any of the eight supported function codes and
  whatever follows the two 16-bit fields: the server replies with the exception PDU that
  carries Illegal Data Address (0x02), nine bytes in all; the register store is left as
  it was, so the access is not clamped to the part that exists; and the connection is
  kept open: the per-client loop is still \<open>Connected\<close> after the request, and the next
  request of the same connection is handled, in the state that the reply has left.
\<close>

theorem out_of_range_request_gets_illegal_data_address:
  assumes "decode bs = Inr (h, p)"
    and "function_code p \<in> set supported_codes"
    and "payload p = a1 # a0 # b1 # b0 # rest"
    and "addressed_space_size (mb_mapping s) (function_code p)
           < unat (be16 a1 a0) + addressed_count (function_code p) (be16 b1 b0)"
  shows "\<exists>s'. s' = s\<lparr>events := events s @ Received (int (length bs))
                       # (if debug then [Query_printed (int (length bs))] else [])
                       @ Replied 9 [hi_byte (transaction_id h), lo_byte (transaction_id h),
                                    0, 0, 0, 3, unit_id h, function_code p OR 0x80, 0x02]
                       # (if debug then [Response_printed 9] else [])\<rparr>
     \<and> serve debug (Bytes bs) s = (9, s')
     \<and> frames_sent (events s') = frames_sent (events s) @
         [[hi_byte (transaction_id h), lo_byte (transaction_id h), 0, 0, 0, 3, unit_id h,
           function_code p OR 0x80, 0x02]]
     \<and> mb_mapping s' = mb_mapping s
     \<and> client_loop modbus_reply debug (modbus_receive (Bytes bs) # rs) s
         = client_loop modbus_reply debug rs s'
     \<and> client_loop modbus_reply debug [modbus_receive (Bytes bs)] s = (Connected, [], s')
     \<and> client_loop modbus_reply debug [modbus_receive (Bytes bs), modbus_receive next] s
         = (if fst (serve debug next s') = -1 then Closed else Connected, [],
            snd (serve debug next s'))"
proof -
  have d: "dispatch (mb_mapping s) p = (Inl IllegalDataAddress, mb_mapping s)"
    by (rule dispatch_out_of_range [OF assms(2,3,4)])
  from exception_reply_keeps_serving [OF assms(1) d, of debug rs "next"]
  show ?thesis by simp
qed

theorem out_of_range_request_gets_illegal_data_address_witness:
  "decode [0, 1, 0, 0, 0, 6, 1, 0x03, 0, 5, 0, 10] =
     Inr (\<lparr>transaction_id = 1, protocol_id = 0, length_field = 6, unit_id = 1\<rparr>,
          \<lparr>function_code = 0x03, payload = [0, 5, 0, 10]\<rparr>)
   \<and> (0x03 :: byte) \<in> set supported_codes
   \<and> addressed_space_size (mb_mapping ten_registers) 0x03 = 10
   \<and> unat (be16 0 5) + addressed_count 0x03 (be16 0 10) = 15
   \<and> serve False (Bytes [0, 1, 0, 0, 0, 6, 1, 0x03, 0, 5, 0, 10]) ten_registers =
       (9, ten_registers\<lparr>events := [Received 12, Replied 9 [0, 1, 0, 0, 0, 3, 1, 0x83, 0x02]]\<rparr>)
   \<and> client_loop modbus_reply False
        [modbus_receive (Bytes [0, 1, 0, 0, 0, 6, 1, 0x03, 0, 5, 0, 10])] ten_registers =
       (Connected, [],
        ten_registers\<lparr>events := [Received 12, Replied 9 [0, 1, 0, 0, 0, 3, 1, 0x83, 0x02]]\<rparr>)
   \<and> client_loop modbus_reply False
        [modbus_receive (Bytes [0, 1, 0, 0, 0, 6, 1, 0x03, 0, 5, 0, 10]),
         modbus_receive (Bytes [0, 2, 0, 0, 0, 6, 1, 0x03, 0, 5, 0, 1])] ten_registers =
       (Connected, [],
        ten_registers\<lparr>events := [Received 12, Replied 9 [0, 1, 0, 0, 0, 3, 1, 0x83, 0x02],
                                  Received 12,
                                  Replied 11 [0, 2, 0, 0, 0, 5, 1, 0x03, 2, 0, 0]]\<rparr>)"
proof -
  let ?h = "\<lparr>transaction_id = 1, protocol_id = 0, length_field = 6, unit_id = 1\<rparr>"
  let ?p = "\<lparr>function_code = 0x03, payload = [0, 5, 0, 10]\<rparr>"
  let ?s' = "ten_registers\<lparr>events :=
               [Received 12, Replied 9 [0, 1, 0, 0, 0, 3, 1, 0x83, 0x02]]\<rparr>"
  have h1: "decode [0, 1, 0, 0, 0, 6, 1, 0x03, 0, 5, 0, 10] = Inr (?h, ?p)" by code_simp
  have h2: "function_code ?p \<in> set supported_codes" by code_simp
  have h3: "payload ?p = 0 # 5 # 0 # 10 # []" by simp
  have s: "addressed_space_size (mb_mapping ten_registers) 0x03 = 10" by code_simp
  have c: "unat (be16 0 5) + addressed_count 0x03 (be16 0 10) = 15" by code_simp
  have h4: "addressed_space_size (mb_mapping ten_registers) (function_code ?p)
           < unat (be16 0 5) + addressed_count (function_code ?p) (be16 0 10)"
    using s c by simp
  have b: "hi_byte 1 = 0" "lo_byte 1 = 1" by (simp_all add: hi_byte_def lo_byte_def)
  have e: "events ten_registers = []" by (simp add: ten_registers_def)
  have n: "serve False (Bytes [0, 2, 0, 0, 0, 6, 1, 0x03, 0, 5, 0, 1]) ?s' =
      (11, ten_registers\<lparr>events := [Received 12, Replied 9 [0, 1, 0, 0, 0, 3, 1, 0x83, 0x02],
                                  Received 12,
                                  Replied 11 [0, 2, 0, 0, 0, 5, 1, 0x03, 2, 0, 0]]\<rparr>)"
    by code_simp
  from out_of_range_request_gets_illegal_data_address [OF h1 h2 h3 h4, of False "[]"
      "Bytes [0, 2, 0, 0, 0, 6, 1, 0x03, 0, 5, 0, 1]"]
  show ?thesis using h1 h2 s c by (simp add: b e n)
qed




text \<open>
  C4. For every request that receives a reply, a normal response or an exception PDU
  alike: the transaction identifier field of the frame sent back equals the transaction
  identifier field of the request.
\<close>

theorem reply_echoes_transaction_id:
  assumes "frames_sent (events (snd (serve debug (Bytes bs) s))) = frames_sent (events s) @ [out]"
  shows "\<exists>t. frame_transaction_id bs = Some t \<and> frame_transaction_id out = Some t"
proof (cases "decode bs")
  case (Inl e)
  then have "recv_rc (modbus_receive (Bytes bs)) = -1"
    by (cases e) (simp add: modbus_receive_def)
  then have "frames_sent (events (snd (serve debug (Bytes bs) s))) = frames_sent (events s)"
    by (simp add: serve_def handle_client_request_def Let_def emit_def debug_print_func_def)
  with assms show ?thesis by simp
next
  case (Inr f)
  obtain h p where f: "decode bs = Inr (h, p)" using Inr by (cases f) simp
  have e: "encode h pp
      = hi_byte (transaction_id h) # lo_byte (transaction_id h) # drop 2 (encode h pp)" for pp
    by (simp add: encode_def Let_def)
  have "\<exists>pp. out = encode h pp"
    using assms
    by (cases debug; cases "fst (dispatch (mb_mapping s) p)")
       (auto simp: serve_decoded [OF f] Let_def encode_exception_def)
  then obtain pp where "out = encode h pp" ..
  then have "frame_transaction_id out = Some (transaction_id h)"
    by (subst (asm) e) simp
  moreover have "frame_transaction_id bs = Some (transaction_id h)"
    by (subst decode_Inr(1) [OF f]) simp
  ultimately show ?thesis by simp
qed

theorem reply_echoes_transaction_id_witness:
  "frames_sent (events (snd (serve False (Bytes [0xAB, 0xCD, 0, 0, 0, 6, 1, 0x03, 0, 3, 0, 1])
       ten_registers)))
     = frames_sent (events ten_registers) @ [[0xAB, 0xCD, 0, 0, 0, 5, 1, 0x03, 2, 0, 0]]
   \<and> frames_sent (events (snd (serve False (Bytes [0xAB, 0xCE, 0, 0, 0, 6, 1, 0x03, 0, 5, 0, 10])
       ten_registers)))
     = frames_sent (events ten_registers) @ [[0xAB, 0xCE, 0, 0, 0, 3, 1, 0x83, 0x02]]
   \<and> frame_transaction_id [0xAB, 0xCD, 0, 0, 0, 6, 1, 0x03, 0, 3, 0, 1] = Some 0xABCD
   \<and> frame_transaction_id [0xAB, 0xCD, 0, 0, 0, 5, 1, 0x03, 2, 0, 0] = Some 0xABCD
   \<and> frame_transaction_id [0xAB, 0xCE, 0, 0, 0, 6, 1, 0x03, 0, 5, 0, 10] = Some 0xABCE
   \<and> frame_transaction_id [0xAB, 0xCE, 0, 0, 0, 3, 1, 0x83, 0x02] = Some 0xABCE"
proof -
  have h1: "frames_sent (events (snd (serve False
        (Bytes [0xAB, 0xCD, 0, 0, 0, 6, 1, 0x03, 0, 3, 0, 1]) ten_registers)))
     = frames_sent (events ten_registers) @ [[0xAB, 0xCD, 0, 0, 0, 5, 1, 0x03, 2, 0, 0]]"
    by code_simp
  have h2: "frames_sent (events (snd (serve False
        (Bytes [0xAB, 0xCE, 0, 0, 0, 6, 1, 0x03, 0, 5, 0, 10]) ten_registers)))
     = frames_sent (events ten_registers) @ [[0xAB, 0xCE, 0, 0, 0, 3, 1, 0x83, 0x02]]"
    by code_simp
  have v: "be16 0xAB 0xCD = 0xABCD" "be16 0xAB 0xCE = 0xABCE" by (simp_all add: be16_def)
  from reply_echoes_transaction_id [OF h1] reply_echoes_transaction_id [OF h2]
  show ?thesis using h1 h2 by (simp add: v)
qed

text \<open>
  C5. For every well-framed request whose function code is not one of 0x01, 0x02, 0x03,
  0x04, 0x05, 0x06, 0x0F, 0x10: the server replies with the exception PDU that carries
  Illegal Function (0x01), the register store is left as it was, and the connection
  stays open: the per-client loop is still \<open>Connected\<close> after the request, and the next
  request of the same connection is handled, in the state that the reply has left.
\<close>

theorem unsupported_function_gets_illegal_function:
  assumes "decode bs = Inr (h, p)"
    and "function_code p \<notin> set [0x01, 0x02, 0x03, 0x04, 0x05, 0x06, 0x0F, 0x10]"
  shows "\<exists>s'. s' = s\<lparr>events := events s @ Received (int (length bs))
                       # (if debug then [Query_printed (int (length bs))] else [])
                       @ Replied 9 [hi_byte (transaction_id h), lo_byte (transaction_id h),
                                    0, 0, 0, 3, unit_id h, function_code p OR 0x80, 0x01]
                       # (if debug then [Response_printed 9] else [])\<rparr>
     \<and> serve debug (Bytes bs) s = (9, s')
     \<and> frames_sent (events s') = frames_sent (events s) @
         [[hi_byte (transaction_id h), lo_byte (transaction_id h), 0, 0, 0, 3, unit_id h,
           function_code p OR 0x80, 0x01]]
     \<and> mb_mapping s' = mb_mapping s
     \<and> client_loop modbus_reply debug (modbus_receive (Bytes bs) # rs) s
         = client_loop modbus_reply debug rs s'
     \<and> client_loop modbus_reply debug [modbus_receive (Bytes bs)] s = (Connected, [], s')
     \<and> client_loop modbus_reply debug [modbus_receive (Bytes bs), modbus_receive next] s
         = (if fst (serve debug next s') = -1 then Closed else Connected, [],
            snd (serve debug next s'))"
proof -
  have d: "dispatch (mb_mapping s) p = (Inl IllegalFunction, mb_mapping s)"
    using assms(2) by (simp add: dispatch_def Let_def supported_codes_def)
  from exception_reply_keeps_serving [OF assms(1) d, of debug rs "next"]
  show ?thesis by simp
qed

theorem unsupported_function_gets_illegal_function_witness:
  "decode [0, 7, 0, 0, 0, 6, 1, 0x2B, 0, 3, 0, 1] =
     Inr (\<lparr>transaction_id = 7, protocol_id = 0, length_field = 6, unit_id = 1\<rparr>,
          \<lparr>function_code = 0x2B, payload = [0, 3, 0, 1]\<rparr>)
   \<and> (0x2B :: byte) \<notin> set [0x01, 0x02, 0x03, 0x04, 0x05, 0x06, 0x0F, 0x10]
   \<and> serve False (Bytes [0, 7, 0, 0, 0, 6, 1, 0x2B, 0, 3, 0, 1]) ten_registers =
       (9, ten_registers\<lparr>events := [Received 12, Replied 9 [0, 7, 0, 0, 0, 3, 1, 0xAB, 0x01]]\<rparr>)
   \<and> client_loop modbus_reply False
        [modbus_receive (Bytes [0, 7, 0, 0, 0, 6, 1, 0x2B, 0, 3, 0, 1])] ten_registers =
       (Connected, [],
        ten_registers\<lparr>events := [Received 12, Replied 9 [0, 7, 0, 0, 0, 3, 1, 0xAB, 0x01]]\<rparr>)
   \<and> client_loop modbus_reply False
        [modbus_receive (Bytes [0, 7, 0, 0, 0, 6, 1, 0x2B, 0, 3, 0, 1]),
         modbus_receive (Bytes [0, 8, 0, 0, 0, 6, 1, 0x03, 0, 3, 0, 1])] ten_registers =
       (Connected, [],
        ten_registers\<lparr>events := [Received 12, Replied 9 [0, 7, 0, 0, 0, 3, 1, 0xAB, 0x01],
                                  Received 12,
                                  Replied 11 [0, 8, 0, 0, 0, 5, 1, 0x03, 2, 0, 0]]\<rparr>)"
proof -
  let ?h = "\<lparr>transaction_id = 7, protocol_id = 0, length_field = 6, unit_id = 1\<rparr>"
  let ?p = "\<lparr>function_code = 0x2B, payload = [0, 3, 0, 1]\<rparr>"
  let ?s' = "ten_registers\<lparr>events :=
               [Received 12, Replied 9 [0, 7, 0, 0, 0, 3, 1, 0xAB, 0x01]]\<rparr>"
  have h1: "decode [0, 7, 0, 0, 0, 6, 1, 0x2B, 0, 3, 0, 1] = Inr (?h, ?p)" by code_simp
  have h2: "function_code ?p \<notin> set [0x01, 0x02, 0x03, 0x04, 0x05, 0x06, 0x0F, 0x10]" by simp
  have b: "hi_byte 7 = 0" "lo_byte 7 = 7" by (simp_all add: hi_byte_def lo_byte_def)
  have e: "events ten_registers = []" by (simp add: ten_registers_def)
  have n: "serve False (Bytes [0, 8, 0, 0, 0, 6, 1, 0x03, 0, 3, 0, 1]) ?s' =
      (11, ten_registers\<lparr>events := [Received 12, Replied 9 [0, 7, 0, 0, 0, 3, 1, 0xAB, 0x01],
                                  Received 12,
                                  Replied 11 [0, 8, 0, 0, 0, 5, 1, 0x03, 2, 0, 0]]\<rparr>)"
    by code_simp
  from unsupported_function_gets_illegal_function [OF h1 h2, of ten_registers False "[]"
      "Bytes [0, 8, 0, 0, 0, 6, 1, 0x03, 0, 3, 0, 1]"]
  show ?thesis using h1 h2 by (simp add: b e n)
qed

text \<open>
  C6 (as amended). Whenever \<open>modbus_receive\<close> reports that the client has reset or
  closed the connection (\<open>-1\<close> with \<open>ECONNRESET\<close>, which is how the modelled library
  reports a read of zero bytes and a reset): \<open>handle_client_request\<close> returns \<open>-1\<close>,
  having written at most the debug line "Client disconnected" and no error line, without
  a call of \<open>modbus_reply\<close> and with the register map untouched; the per-client loop is
  left (\<open>Closed\<close>); and \<open>main\<close> goes on to the next accept. The client socket is still
  among the open sockets: the program makes no call that closes or frees the
  connection.
\<close>

theorem client_departure_leaves_loop_without_error:
  assumes "r = modbus_receive Reset \<or> r = modbus_receive (Bytes [])
             \<or> (recv_rc r = -1 \<and> recv_errno r = ECONNRESET)"
  shows "handle_client_request rp r debug s =
           (-1, s\<lparr>events := events s @ Received (-1)
                      # (if debug then [Info_disconnected] else [])\<rparr>)
     \<and> client_loop rp debug (r # rs) s =
           (Closed, rs, s\<lparr>events := events s @ Received (-1)
                      # (if debug then [Info_disconnected] else [])\<rparr>)
     \<and> (c \<noteq> -1 \<longrightarrow> accept_loop rp debug ((c, e) # acs) (r # rs) s =
           accept_loop rp debug acs rs
             (s\<lparr>open_sockets := open_sockets s @ [c],
                events := events s @ Accepted c # (if debug then [Info_connected] else [])
                   @ Received (-1) # (if debug then [Info_disconnected] else [])\<rparr>))"
proof -
  from assms have r: "recv_rc r = -1" "recv_errno r = ECONNRESET"
    by (auto simp: modbus_receive_def)
  note h = departure_request [OF r, of rp debug]
  have cl: "client_loop rp debug (r # rs) s' =
     (Closed, rs, s'\<lparr>events := events s' @ Received (-1)
                       # (if debug then [Info_disconnected] else [])\<rparr>)" for s'
    by (simp add: h)
  have "c \<noteq> -1 \<Longrightarrow> accept_loop rp debug ((c, e) # acs) (r # rs) s =
           accept_loop rp debug acs rs
             (s\<lparr>open_sockets := open_sockets s @ [c],
                events := events s @ Accepted c # (if debug then [Info_connected] else [])
                   @ Received (-1) # (if debug then [Info_disconnected] else [])\<rparr>)"
    by (simp add: Let_def emit_def debug_print_func_def cl del: client_loop.simps)
  with h cl show ?thesis by blast
qed

theorem client_departure_leaves_loop_without_error_witness:
  "handle_client_request modbus_reply (modbus_receive Reset) True ten_registers =
     (-1, ten_registers\<lparr>events := [Received (-1), Info_disconnected]\<rparr>)
   \<and> client_loop modbus_reply True [modbus_receive Reset] ten_registers =
     (Closed, [], ten_registers\<lparr>events := [Received (-1), Info_disconnected]\<rparr>)
   \<and> (6 :: int) \<noteq> -1
   \<and> accept_loop modbus_reply True [(6, 0)] [modbus_receive Reset] ten_registers =
       ten_registers\<lparr>open_sockets := [5, 6],
          events := [Accepted 6, Info_connected, Received (-1), Info_disconnected]\<rparr>"
proof -
  have e: "events ten_registers = []" "open_sockets ten_registers = [5]"
    by (simp_all add: ten_registers_def)
  from client_departure_leaves_loop_without_error [of "modbus_receive Reset" modbus_reply True
      ten_registers "[]" 6 0 "[]"]
  show ?thesis by (simp add: e)
qed

text \<open>
  C6 as stated fails where it says that the connection is released. The outside world
  accepts one client on socket 5, whose first read reports a reset. The program has left
  the per-client loop and is waiting in the next accept, no error has been logged, and
  socket 5 is still open: nothing has been called since the failed receive.
\<close>

theorem client_departure_keeps_socket_open:
  "main (modbus_mapping_new True) modbus_reply
     \<lparr>new_tcp_ok = True, listen_socket = 3, startup_errno = 0, accepts = [(5, 0)],
      receives = [modbus_receive Reset]\<rparr> 10 False =
   Serving \<lparr>mb_mapping = \<lparr>coils = [], discrete_inputs = [],
                          holding_registers = [0, 0, 0, 0, 0, 0, 0, 0, 0, 0],
                          input_registers = []\<rparr>,
            open_sockets = [5],
            events = [Settings_printed, Info_listening, Accepted 5, Received (-1)]\<rparr>"
  by code_simp

text \<open>
  C7. The server never handles two clients at once. In every run of \<open>main\<close>, with any
  library and any outside world, the events satisfy the one-client monitor: a call of
  \<open>modbus_tcp_accept\<close> happens only while no client is being served, and after a client
  has been accepted every receive and reply belongs to it until one of its requests ends
  with \<open>-1\<close> (disconnect or error); only then is the next accept made.
\<close>

theorem serves_one_client_at_a_time:
  "one_client_at_a_time (trace (main mn rp env n d))"
proof -
  have "\<exists>p. phase_after (trace (main mn rp env n d)) = Some p"
  proof (cases "main mn rp env n d")
    case (Exited r evs)
    then show ?thesis
      by (auto simp: main_def init_modbus_server_def init_modbus_mapping_def
          start_listening_def phase_after_def Let_def split: if_splits option.splits)
  next
    case (Serving s)
    then obtain m where "s = accept_loop rp d (accepts env) (receives env)
        \<lparr>mb_mapping = m, open_sockets = [], events = [Settings_printed, Info_listening]\<rparr>"
      by (auto simp: main_def init_modbus_server_def init_modbus_mapping_def
          start_listening_def Let_def split: if_splits option.splits)
    moreover have "phase_after (events \<lparr>mb_mapping = m, open_sockets = [],
        events = [Settings_printed, Info_listening]\<rparr>) = Some Idle"
      by (simp add: phase_after_def)
    ultimately show ?thesis using Serving phase_accept_loop by fastforce
  qed
  then show ?thesis by (auto simp: one_client_at_a_time_def)
qed

theorem serves_one_client_at_a_time_witness:
  "one_client_at_a_time (trace (main (modbus_mapping_new True) modbus_reply one_writer 10 True))
   \<and> trace (main (modbus_mapping_new True) modbus_reply one_writer 10 True) =
       [Settings_printed, Info_listening, Accepted (-1), Error_accepting 24, Accepted 5,
        Info_connected, Received 12, Query_printed 12,
        Replied 12 [0, 1, 0, 0, 0, 6, 1, 0x06, 0, 3, 0x12, 0x34], Response_printed 12]"
proof -
  have "trace (main (modbus_mapping_new True) modbus_reply one_writer 10 True) =
       [Settings_printed, Info_listening, Accepted (-1), Error_accepting 24, Accepted 5,
        Info_connected, Received 12, Query_printed 12,
        Replied 12 [0, 1, 0, 0, 0, 6, 1, 0x06, 0, 3, 0x12, 0x34], Response_printed 12]"
    by code_simp
  with serves_one_client_at_a_time [of "modbus_mapping_new True" modbus_reply one_writer 10 True]
  show ?thesis by simp
qed

text \<open>
  C8. For every failure of the accept operation (\<open>modbus_tcp_accept\<close> returns \<open>-1\<close>),
  the listener logs the error and makes the next accept. After any number of failures in
  a row the state is the one before them with, for each failure in order, the failed
  accept followed by its error line; the loop then goes on with the rest of the script,
  and a client that connects next is accepted. No accept failure ends the listener or
  the process: once startup has succeeded \<open>main\<close> never returns, whatever the accepts
  yield, and after nothing but failures it is still in the accept loop with exactly
  those log lines.
\<close>

theorem accept_failure_logged_and_retried:
  "accept_loop rp debug (map (Pair (-1)) errs @ acs) rs s =
     accept_loop rp debug acs rs
       (s\<lparr>events := events s @ concat (map (\<lambda>e. [Accepted (-1), Error_accepting e]) errs)\<rparr>)
   \<and> accept_loop rp debug (map (Pair (-1)) errs) rs s =
       s\<lparr>events := events s @ concat (map (\<lambda>e. [Accepted (-1), Error_accepting e]) errs)\<rparr>
   \<and> (c \<noteq> -1 \<longrightarrow>
        accept_loop rp debug (map (Pair (-1)) errs @ [(c, e')]) [] s =
          s\<lparr>open_sockets := open_sockets s @ [c],
            events := events s @ concat (map (\<lambda>e. [Accepted (-1), Error_accepting e]) errs)
                        @ Accepted c # (if debug then [Info_connected] else [])\<rparr>)
   \<and> (new_tcp_ok env \<and> mn 0 0 n 0 \<noteq> None \<and> listen_socket env \<noteq> -1 \<longrightarrow>
        (\<exists>s'. main mn rp env n debug = Serving s'))
   \<and> (new_tcp_ok env \<and> mn 0 0 n 0 = Some m \<and> listen_socket env \<noteq> -1
        \<and> accepts env = map (Pair (-1)) errs \<longrightarrow>
        main mn rp env n debug =
          Serving \<lparr>mb_mapping = m, open_sockets = [],
                   events = [Settings_printed, Info_listening]
                     @ concat (map (\<lambda>e. [Accepted (-1), Error_accepting e]) errs)\<rparr>)"
proof -
  have step: "accept_loop rp debug (map (Pair (-1)) errs @ acs') rs' s0 =
     accept_loop rp debug acs' rs'
       (s0\<lparr>events := events s0
              @ concat (map (\<lambda>e. [Accepted (-1), Error_accepting e]) errs)\<rparr>)"
    for acs' rs' s0
  proof (induction errs arbitrary: s0)
    case Nil
    show ?case by simp
  next
    case (Cons e errs)
    show ?case by (simp add: Let_def Cons.IH emit_def)
  qed
  have only: "accept_loop rp debug (map (Pair (-1)) errs) rs' s0 =
       s0\<lparr>events := events s0
              @ concat (map (\<lambda>e. [Accepted (-1), Error_accepting e]) errs)\<rparr>" for rs' s0
    using step [of "[]" rs' s0] by simp
  have next_client: "c \<noteq> -1 \<Longrightarrow>
        accept_loop rp debug (map (Pair (-1)) errs @ [(c, e')]) [] s =
          s\<lparr>open_sockets := open_sockets s @ [c],
            events := events s @ concat (map (\<lambda>e. [Accepted (-1), Error_accepting e]) errs)
                        @ Accepted c # (if debug then [Info_connected] else [])\<rparr>"
    by (simp add: step Let_def emit_def debug_print_func_def)
  have never: "new_tcp_ok env \<and> mn 0 0 n 0 \<noteq> None \<and> listen_socket env \<noteq> -1 \<longrightarrow>
        (\<exists>s'. main mn rp env n debug = Serving s')"
    by (auto simp: main_def init_modbus_server_def init_modbus_mapping_def start_listening_def
        Let_def)
  have still: "new_tcp_ok env \<and> mn 0 0 n 0 = Some m \<and> listen_socket env \<noteq> -1
        \<and> accepts env = map (Pair (-1)) errs \<longrightarrow>
        main mn rp env n debug =
          Serving \<lparr>mb_mapping = m, open_sockets = [],
                   events = [Settings_printed, Info_listening]
                     @ concat (map (\<lambda>e. [Accepted (-1), Error_accepting e]) errs)\<rparr>"
    by (auto simp: main_def init_modbus_server_def init_modbus_mapping_def start_listening_def
        Let_def only)
  from step [of acs rs s] only [of rs s] next_client never still show ?thesis by blast
qed

theorem accept_failure_logged_and_retried_witness:
  "accept_loop modbus_reply False [(-1, 24), (-1, 23)] [] ten_registers =
     ten_registers\<lparr>events := [Accepted (-1), Error_accepting 24,
                               Accepted (-1), Error_accepting 23]\<rparr>
   \<and> (6 :: int) \<noteq> -1
   \<and> accept_loop modbus_reply False [(-1, 24), (-1, 23), (6, 0)] [] ten_registers =
     ten_registers\<lparr>open_sockets := [5, 6],
        events := [Accepted (-1), Error_accepting 24, Accepted (-1), Error_accepting 23,
                   Accepted 6]\<rparr>
   \<and> new_tcp_ok (one_writer\<lparr>accepts := [(-1, 24), (-1, 23)]\<rparr>)
   \<and> modbus_mapping_new True 0 0 10 0 =
       Some \<lparr>coils = [], discrete_inputs = [],
             holding_registers = [0, 0, 0, 0, 0, 0, 0, 0, 0, 0], input_registers = []\<rparr>
   \<and> listen_socket (one_writer\<lparr>accepts := [(-1, 24), (-1, 23)]\<rparr>) \<noteq> -1
   \<and> main (modbus_mapping_new True) modbus_reply
        (one_writer\<lparr>accepts := [(-1, 24), (-1, 23)]\<rparr>) 10 False =
       Serving \<lparr>mb_mapping = \<lparr>coils = [], discrete_inputs = [],
                              holding_registers = [0, 0, 0, 0, 0, 0, 0, 0, 0, 0],
                              input_registers = []\<rparr>,
                open_sockets = [],
                events = [Settings_printed, Info_listening, Accepted (-1), Error_accepting 24,
                          Accepted (-1), Error_accepting 23]\<rparr>"
proof -
  let ?env = "one_writer\<lparr>accepts := [(-1, 24), (-1, 23)]\<rparr>"
  let ?m = "\<lparr>coils = [], discrete_inputs = [],
             holding_registers = [0, 0, 0, 0, 0, 0, 0, 0, 0, 0], input_registers = []\<rparr>"
  have h: "new_tcp_ok ?env" "listen_socket ?env \<noteq> -1"
    "accepts ?env = map (Pair (-1)) [24, 23]"
    by (simp_all add: one_writer_def)
  have hm: "modbus_mapping_new True 0 0 10 0 = Some ?m" by code_simp
  have e: "events ten_registers = []" "open_sockets ten_registers = [5]"
    by (simp_all add: ten_registers_def)
  from accept_failure_logged_and_retried [where rp = modbus_reply and debug = False
      and errs = "[24, 23]" and acs = "[]" and rs = "[]" and s = ten_registers and c = 6
      and e' = 0 and env = ?env and mn = "modbus_mapping_new True" and n = 10 and m = ?m]
  show ?thesis using h hm by (simp add: e Let_def emit_def debug_print_func_def)
qed

text \<open>
  C9. If listening on the server socket fails at startup (\<open>modbus_tcp_listen\<close> returns
  \<open>-1\<close>), or the allocation of the register map fails (\<open>modbus_mapping_new\<close> returns
  \<open>NULL\<close>), \<open>main\<close> returns \<open>-1\<close>, which the parent process sees as the non-zero exit
  status 255, and nothing that belongs to accepting or serving a client has happened.
\<close>

theorem startup_failure_exits_nonzero:
  assumes "listen_socket env = -1 \<or> mn 0 0 n 0 = None"
  shows "\<exists>evs. main mn rp env n debug = Exited (-1) evs \<and> filter client_event evs = []
           \<and> exit_status (-1) = 255"
  using assms
  by (auto simp: main_def init_modbus_server_def init_modbus_mapping_def start_listening_def
        Let_def exit_status_def split: option.splits)

theorem startup_failure_exits_nonzero_witness:
  "listen_socket (one_writer\<lparr>listen_socket := -1, startup_errno := 98\<rparr>) = -1
   \<and> main (modbus_mapping_new True) modbus_reply
        (one_writer\<lparr>listen_socket := -1, startup_errno := 98\<rparr>) 10 False
      = Exited (-1) [Settings_printed, Error_listening 98, Mapping_freed, Context_freed]
   \<and> modbus_mapping_new False 0 0 10 0 = None
   \<and> main (modbus_mapping_new False) modbus_reply one_writer 10 False
      = Exited (-1) [Settings_printed, Error_allocating 0, Context_freed]
   \<and> exit_status (-1) = 255"
proof -
  have h1: "listen_socket (one_writer\<lparr>listen_socket := -1, startup_errno := 98\<rparr>) = -1
      \<or> modbus_mapping_new True 0 0 10 0 = None" by simp
  have h2: "listen_socket one_writer = -1 \<or> modbus_mapping_new False 0 0 10 0 = None"
    by (simp add: modbus_mapping_new_def)
  have v1: "main (modbus_mapping_new True) modbus_reply
        (one_writer\<lparr>listen_socket := -1, startup_errno := 98\<rparr>) 10 False
      = Exited (-1) [Settings_printed, Error_listening 98, Mapping_freed, Context_freed]"
    by code_simp
  have v2: "main (modbus_mapping_new False) modbus_reply one_writer 10 False
      = Exited (-1) [Settings_printed, Error_allocating 0, Context_freed]"
    by code_simp
  from startup_failure_exits_nonzero [where env = "one_writer\<lparr>listen_socket := -1, startup_errno := 98\<rparr>"
      and mn = "modbus_mapping_new True" and n = 10 and rp = modbus_reply and debug = False]
    startup_failure_exits_nonzero [where env = one_writer
      and mn = "modbus_mapping_new False" and n = 10 and rp = modbus_reply and debug = False]
  show ?thesis using h1 h2 v1 v2 by (simp add: modbus_mapping_new_def)
qed




end
